theory Spec2Isabelle
  imports Main "HOL-Library.Word"
begin

section \<open>The XML writer of xmloutput.cpp\<close>

text \<open>
  The class \<open>Output\<close> serialises a sequence of calls into bytes that it hands to an
  external \<open>OutputStream\<close>. The stream is append-only and never read back, so every
  member function is modelled as a function from the object's state to the bytes it
  writes to the stream, in order, paired with its outcome: the new state, or the reason
  why control never came back. A failed \<open>assert\<close> aborts the process; the bytes written
  before it stay written, and the model keeps them.

  Conventions of the model:
  \<^item> a \<open>const char *\<close> argument is a \<open>string option\<close>: \<open>None\<close> is the null pointer,
    \<open>Some cs\<close> points to the characters \<open>cs\<close> that precede the terminating NUL;
  \<^item> \<open>int\<close> and \<open>unsigned int\<close> arguments are 32-bit words, read with \<open>sint\<close> and
    \<open>unat\<close>;
  \<^item> the member \<open>mLevel\<close> is an \<open>int\<close>: the model holds its value as a mathematical
    integer and treats the increment at \<open>INT_MAX\<close>, which C++ leaves undefined, as an
    outcome of its own;
  \<^item> assertions are compiled in (no \<open>NDEBUG\<close>).
\<close>

subsection \<open>Outcomes and sequencing\<close>

datatype error = AssertionFailed | SignedOverflow

type_synonym 'a io = "string \<times> (error + 'a)"

definition ret :: "'a \<Rightarrow> 'a io" where
  "ret a = ([], Inr a)"

definition abort :: "error \<Rightarrow> 'a io" where
  "abort e = ([], Inl e)"

text \<open>Statement sequencing: the second statement runs only if the first one returned,
  and its bytes follow those of the first.\<close>

definition then_do :: "'a io \<Rightarrow> ('a \<Rightarrow> 'b io) \<Rightarrow> 'b io" where
  "then_do m f =
     (case m of
        (w, Inl e) \<Rightarrow> (w, Inl e)
      | (w, Inr a) \<Rightarrow> (case f a of (w', r) \<Rightarrow> (w @ w', r)))"

definition emitted :: "'a io \<Rightarrow> string" where
  "emitted m = fst m"

definition outcome :: "'a io \<Rightarrow> error + 'a" where
  "outcome m = snd m"

definition violates :: "'a io \<Rightarrow> bool" where
  "violates m = (outcome m = Inl AssertionFailed)"

subsection \<open>State\<close>

text \<open>Modelled from the spec: the enumeration \<open>Mode\<close> is declared in xmloutput.h, which
  is not among the sources; the code names only \<open>terse\<close>, the spec names the other
  value \<open>normal\<close>.\<close>

datatype Mode = normal | terse

record Output =
  mLevel :: int
  mAttributes :: bool
  mElements :: "string list"

definition INT_MAX :: int where
  "INT_MAX = 2147483647"

text \<open>The constructor: level 0, no attribute window, and the default-constructed
  (empty) container of element names.\<close>

definition Output_new :: Output where
  "Output_new = \<lparr>mLevel = 0, mAttributes = False, mElements = []\<rparr>"

subsection \<open>Raw output\<close>

definition tab :: string where
  "tab = [CHR 0x09]"

definition nl :: string where
  "nl = [CHR 0x0A]"

definition quot :: string where
  "quot = [CHR 0x22]"

definition strlen_c :: "string \<Rightarrow> nat" where
  "strlen_c cs = length cs"

definition write_str :: "string \<Rightarrow> nat \<Rightarrow> Output \<Rightarrow> Output io" where
  "write_str str len s = (take len str, Inr s)"

definition writeString :: "string option \<Rightarrow> Output \<Rightarrow> Output io" where
  "writeString str s =
     (case str of
        None \<Rightarrow> abort AssertionFailed
      | Some cs \<Rightarrow> write_str cs (strlen_c cs) s)"

definition writeLine :: "string option \<Rightarrow> Output \<Rightarrow> Output io" where
  "writeLine str s =
     (case str of
        None \<Rightarrow> abort AssertionFailed
      | Some cs \<Rightarrow> then_do (write_str cs (strlen_c cs) s) (write_str nl 1))"

subsection \<open>Value formatting\<close>

text \<open>What \<open>sprintf\<close> stores for the conversion \<open>%d\<close>: the decimal digits of a signed
  integer, with a leading minus sign for a negative one.\<close>

definition digit_char :: "nat \<Rightarrow> char" where
  "digit_char d = ''0123456789'' ! d"

function decimal :: "nat \<Rightarrow> string" where
  "decimal n = (if n < 10 then [digit_char n] else decimal (n div 10) @ [digit_char (n mod 10)])"
  by pat_completeness auto
termination
  by (relation "measure (\<lambda>n. n)") auto

declare decimal.simps [simp del]

definition sprintf_d :: "int \<Rightarrow> string" where
  "sprintf_d i = (if i < 0 then ''-'' @ decimal (nat (- i)) else decimal (nat i))"

text \<open>The six inserters. The one for \<open>unsigned int\<close> passes its argument to the same
  conversion \<open>%d\<close> as the one for \<open>int\<close>, so the 32 bits are read as a signed value.
  The conversion \<open>%g\<close> of the C library is a parameter \<open>g\<close> of the model.\<close>

definition shl_string :: "string \<Rightarrow> Output \<Rightarrow> Output io" where
  "shl_string str s = write_str str (length str) s"

definition shl_cstr :: "string option \<Rightarrow> Output \<Rightarrow> Output io" where
  "shl_cstr str s =
     (case str of
        None \<Rightarrow> abort AssertionFailed
      | Some cs \<Rightarrow> writeString str s)"

definition shl_int :: "32 word \<Rightarrow> Output \<Rightarrow> Output io" where
  "shl_int v s = writeString (Some (sprintf_d (sint v))) s"

definition shl_uint :: "32 word \<Rightarrow> Output \<Rightarrow> Output io" where
  "shl_uint v s = writeString (Some (sprintf_d (sint v))) s"

definition shl_double :: "('d \<Rightarrow> string) \<Rightarrow> 'd \<Rightarrow> Output \<Rightarrow> Output io" where
  "shl_double g v s = writeString (Some (g v)) s"

definition shl_bool :: "bool \<Rightarrow> Output \<Rightarrow> Output io" where
  "shl_bool v s = writeString (Some (if v then ''True'' else ''False'')) s"

subsection \<open>Document and element lifecycle\<close>

definition BeginDocument :: "string option \<Rightarrow> string option \<Rightarrow> bool \<Rightarrow> Output \<Rightarrow> Output io" where
  "BeginDocument version encoding standalone s =
     (if version = None then abort AssertionFailed
      else if encoding = None then abort AssertionFailed
      else
        then_do (shl_cstr (Some (''<?xml version='' @ quot)) s) (\<lambda>s.
        then_do (shl_cstr version s) (\<lambda>s.
        then_do (shl_cstr (Some (quot @ '' encoding='' @ quot)) s) (\<lambda>s.
        then_do (shl_cstr encoding s) (\<lambda>s.
        then_do (shl_cstr (Some quot) s) (\<lambda>s.
        then_do (shl_cstr (Some ('' standalone='' @ quot)) s) (\<lambda>s.
        then_do (shl_cstr (Some (if standalone then ''yes'' else ''no'')) s) (\<lambda>s.
        shl_cstr (Some (quot @ ''?>'' @ nl)) s))))))))"

definition EndDocument :: "Output \<Rightarrow> Output io" where
  "EndDocument s =
     (if mAttributes s then abort AssertionFailed
      else if mElements s \<noteq> [] then abort AssertionFailed
      else ret s)"

function Indent_loop :: "int \<Rightarrow> Output \<Rightarrow> Output io" where
  "Indent_loop i s =
     (if i < mLevel s then
        (case shl_cstr (Some tab) s of
           (w, Inl e) \<Rightarrow> (w, Inl e)
         | (w, Inr s') \<Rightarrow> (case Indent_loop (i + 1) s' of (w', r) \<Rightarrow> (w @ w', r)))
      else ret s)"
  by pat_completeness auto
termination
  by (relation "measure (\<lambda>(i, s). nat (mLevel s - i))")
     (auto simp: shl_cstr_def writeString_def write_str_def)

declare Indent_loop.simps [simp del]

definition Indent :: "Output \<Rightarrow> Output io" where
  "Indent s = Indent_loop 0 s"

text \<open>The statement \<open>mLevel++\<close>.\<close>

definition incr_mLevel :: "Output \<Rightarrow> Output io" where
  "incr_mLevel s =
     (if mLevel s = INT_MAX then abort SignedOverflow
      else ret (s\<lparr>mLevel := mLevel s + 1\<rparr>))"

definition BeginElement :: "string option \<Rightarrow> Mode \<Rightarrow> Output \<Rightarrow> Output io" where
  "BeginElement name mode s =
     (case name of
        None \<Rightarrow> abort AssertionFailed
      | Some n \<Rightarrow>
          if mAttributes s then abort AssertionFailed
          else
            then_do (Indent s) (\<lambda>s.
            then_do (incr_mLevel s) (\<lambda>s.
            then_do (shl_cstr (Some ''<'') s) (\<lambda>s.
            then_do (shl_cstr name s) (\<lambda>s.
            then_do (shl_cstr (Some ''>'') s) (\<lambda>s.
            then_do (if mode \<noteq> terse then shl_cstr (Some nl) s else ret s) (\<lambda>s.
            ret (s\<lparr>mElements := mElements s @ [n]\<rparr>))))))))"

definition BeginElementAttrs :: "string option \<Rightarrow> Output \<Rightarrow> Output io" where
  "BeginElementAttrs name s =
     (case name of
        None \<Rightarrow> abort AssertionFailed
      | Some n \<Rightarrow>
          if mAttributes s then abort AssertionFailed
          else
            then_do (Indent s) (\<lambda>s.
            then_do (incr_mLevel s) (\<lambda>s.
            then_do (shl_cstr (Some ''<'') s) (\<lambda>s.
            then_do (shl_cstr name s) (\<lambda>s.
            then_do (ret (s\<lparr>mAttributes := True\<rparr>)) (\<lambda>s.
            ret (s\<lparr>mElements := mElements s @ [n]\<rparr>)))))))"

definition EndAttrs :: "Mode \<Rightarrow> Output \<Rightarrow> Output io" where
  "EndAttrs mode s =
     (if \<not> mAttributes s then abort AssertionFailed
      else
        then_do (ret (s\<lparr>mAttributes := False\<rparr>)) (\<lambda>s.
        then_do (shl_cstr (Some ''>'') s) (\<lambda>s.
        if mode \<noteq> terse then shl_cstr (Some nl) s else ret s)))"

definition EndElement :: "Mode \<Rightarrow> Output \<Rightarrow> Output io" where
  "EndElement mode s =
     (if \<not> length (mElements s) > 0 then abort AssertionFailed
      else if mAttributes s then abort AssertionFailed
      else if \<not> mLevel s > 0 then abort AssertionFailed
      else
        then_do (ret (s\<lparr>mLevel := mLevel s - 1\<rparr>)) (\<lambda>s.
        then_do (if mode \<noteq> terse then Indent s else ret s) (\<lambda>s.
        let name = last (mElements s) in
        then_do (ret (s\<lparr>mElements := butlast (mElements s)\<rparr>)) (\<lambda>s.
        then_do (shl_cstr (Some ''</'') s) (\<lambda>s.
        then_do (shl_cstr (Some name) s) (\<lambda>s.
        then_do (shl_cstr (Some ''>'') s) (\<lambda>s.
        shl_cstr (Some nl) s)))))))"

subsection \<open>Text elements and attributes\<close>

definition WriteElement_string :: "string option \<Rightarrow> string \<Rightarrow> Output \<Rightarrow> Output io" where
  "WriteElement_string name v s =
     (if name = None then abort AssertionFailed
      else
        then_do (BeginElement name terse s) (\<lambda>s.
        then_do (shl_string v s) (\<lambda>s.
        EndElement terse s)))"

definition WriteElement_cstr :: "string option \<Rightarrow> string option \<Rightarrow> Output \<Rightarrow> Output io" where
  "WriteElement_cstr name v s =
     (if name = None then abort AssertionFailed
      else if v = None then abort AssertionFailed
      else
        then_do (BeginElement name terse s) (\<lambda>s.
        then_do (shl_cstr v s) (\<lambda>s.
        EndElement terse s)))"

definition WriteElement_int :: "string option \<Rightarrow> 32 word \<Rightarrow> Output \<Rightarrow> Output io" where
  "WriteElement_int name v s =
     (if name = None then abort AssertionFailed
      else
        then_do (BeginElement name terse s) (\<lambda>s.
        then_do (shl_int v s) (\<lambda>s.
        EndElement terse s)))"

definition WriteElement_uint :: "string option \<Rightarrow> 32 word \<Rightarrow> Output \<Rightarrow> Output io" where
  "WriteElement_uint name v s =
     (if name = None then abort AssertionFailed
      else
        then_do (BeginElement name terse s) (\<lambda>s.
        then_do (shl_uint v s) (\<lambda>s.
        EndElement terse s)))"

definition WriteElement_double :: "('d \<Rightarrow> string) \<Rightarrow> string option \<Rightarrow> 'd \<Rightarrow> Output \<Rightarrow> Output io" where
  "WriteElement_double g name v s =
     (if name = None then abort AssertionFailed
      else
        then_do (BeginElement name terse s) (\<lambda>s.
        then_do (shl_double g v s) (\<lambda>s.
        EndElement terse s)))"

definition WriteElement_bool :: "string option \<Rightarrow> bool \<Rightarrow> Output \<Rightarrow> Output io" where
  "WriteElement_bool name v s =
     (if name = None then abort AssertionFailed
      else
        then_do (BeginElement name terse s) (\<lambda>s.
        then_do (shl_bool v s) (\<lambda>s.
        EndElement terse s)))"

definition WriteAttr_string :: "string option \<Rightarrow> string \<Rightarrow> Output \<Rightarrow> Output io" where
  "WriteAttr_string name v s =
     (if \<not> mAttributes s then abort AssertionFailed
      else if name = None then abort AssertionFailed
      else
        then_do (shl_cstr (Some '' '') s) (\<lambda>s.
        then_do (shl_cstr name s) (\<lambda>s.
        then_do (shl_cstr (Some (''='' @ quot)) s) (\<lambda>s.
        then_do (shl_string v s) (\<lambda>s.
        shl_cstr (Some quot) s)))))"

definition WriteAttr_cstr :: "string option \<Rightarrow> string option \<Rightarrow> Output \<Rightarrow> Output io" where
  "WriteAttr_cstr name v s =
     (if \<not> mAttributes s then abort AssertionFailed
      else if name = None then abort AssertionFailed
      else if v = None then abort AssertionFailed
      else
        then_do (shl_cstr (Some '' '') s) (\<lambda>s.
        then_do (shl_cstr name s) (\<lambda>s.
        then_do (shl_cstr (Some (''='' @ quot)) s) (\<lambda>s.
        then_do (shl_cstr v s) (\<lambda>s.
        shl_cstr (Some quot) s)))))"

definition WriteAttr_int :: "string option \<Rightarrow> 32 word \<Rightarrow> Output \<Rightarrow> Output io" where
  "WriteAttr_int name v s =
     (if \<not> mAttributes s then abort AssertionFailed
      else if name = None then abort AssertionFailed
      else
        then_do (shl_cstr (Some '' '') s) (\<lambda>s.
        then_do (shl_cstr name s) (\<lambda>s.
        then_do (shl_cstr (Some (''='' @ quot)) s) (\<lambda>s.
        then_do (shl_int v s) (\<lambda>s.
        shl_cstr (Some quot) s)))))"

definition WriteAttr_double :: "('d \<Rightarrow> string) \<Rightarrow> string option \<Rightarrow> 'd \<Rightarrow> Output \<Rightarrow> Output io" where
  "WriteAttr_double g name v s =
     (if \<not> mAttributes s then abort AssertionFailed
      else if name = None then abort AssertionFailed
      else
        then_do (shl_cstr (Some '' '') s) (\<lambda>s.
        then_do (shl_cstr name s) (\<lambda>s.
        then_do (shl_cstr (Some (''='' @ quot)) s) (\<lambda>s.
        then_do (shl_double g v s) (\<lambda>s.
        shl_cstr (Some quot) s)))))"

definition WriteAttr_bool :: "string option \<Rightarrow> bool \<Rightarrow> Output \<Rightarrow> Output io" where
  "WriteAttr_bool name v s =
     (if \<not> mAttributes s then abort AssertionFailed
      else if name = None then abort AssertionFailed
      else
        then_do (shl_cstr (Some '' '') s) (\<lambda>s.
        then_do (shl_cstr name s) (\<lambda>s.
        then_do (shl_cstr (Some (''='' @ quot)) s) (\<lambda>s.
        then_do (shl_bool v s) (\<lambda>s.
        shl_cstr (Some quot) s)))))"

subsection \<open>Overload resolution and call sequences\<close>

text \<open>The value kinds for which \<open>WriteElement\<close> is defined, and those for which
  \<open>WriteAttr\<close> is: the file defines no \<open>WriteAttr\<close> for \<open>unsigned int\<close>.\<close>

datatype 'd elem_value =
  VString string | VCStr "string option" | VInt "32 word" | VUInt "32 word"
  | VDouble 'd | VBool bool

datatype 'd attr_value =
  AString string | ACStr "string option" | AInt "32 word" | ADouble 'd | ABool bool

definition WriteElement :: "('d \<Rightarrow> string) \<Rightarrow> string option \<Rightarrow> 'd elem_value \<Rightarrow> Output \<Rightarrow> Output io" where
  "WriteElement g name v s =
     (case v of
        VString x \<Rightarrow> WriteElement_string name x s
      | VCStr x \<Rightarrow> WriteElement_cstr name x s
      | VInt x \<Rightarrow> WriteElement_int name x s
      | VUInt x \<Rightarrow> WriteElement_uint name x s
      | VDouble x \<Rightarrow> WriteElement_double g name x s
      | VBool x \<Rightarrow> WriteElement_bool name x s)"

definition WriteAttr :: "('d \<Rightarrow> string) \<Rightarrow> string option \<Rightarrow> 'd attr_value \<Rightarrow> Output \<Rightarrow> Output io" where
  "WriteAttr g name v s =
     (case v of
        AString x \<Rightarrow> WriteAttr_string name x s
      | ACStr x \<Rightarrow> WriteAttr_cstr name x s
      | AInt x \<Rightarrow> WriteAttr_int name x s
      | ADouble x \<Rightarrow> WriteAttr_double g name x s
      | ABool x \<Rightarrow> WriteAttr_bool name x s)"

datatype 'd call =
  CallBeginDocument "string option" "string option" bool
  | CallEndDocument
  | CallBeginElement "string option" Mode
  | CallBeginElementAttrs "string option"
  | CallEndAttrs Mode
  | CallEndElement Mode
  | CallWriteElement "string option" "'d elem_value"
  | CallWriteAttr "string option" "'d attr_value"

fun step :: "('d \<Rightarrow> string) \<Rightarrow> 'd call \<Rightarrow> Output \<Rightarrow> Output io" where
  "step g (CallBeginDocument version encoding standalone) s = BeginDocument version encoding standalone s"
| "step g CallEndDocument s = EndDocument s"
| "step g (CallBeginElement name mode) s = BeginElement name mode s"
| "step g (CallBeginElementAttrs name) s = BeginElementAttrs name s"
| "step g (CallEndAttrs mode) s = EndAttrs mode s"
| "step g (CallEndElement mode) s = EndElement mode s"
| "step g (CallWriteElement name v) s = WriteElement g name v s"
| "step g (CallWriteAttr name v) s = WriteAttr g name v s"

fun run :: "('d \<Rightarrow> string) \<Rightarrow> 'd call list \<Rightarrow> Output \<Rightarrow> Output io" where
  "run g [] s = ret s"
| "run g (c # cs) s = then_do (step g c s) (run g cs)"

text \<open>The meaning that the spec gives to \<open>writeElement\<close>, in the spec's words: open
  the element tersely, emit the formatted value as text, close the element tersely. The
  formatted value is: a string verbatim; an integer as its decimal digits, with a leading
  minus sign when it is negative; an unsigned integer as the decimal digits of its
  magnitude, as a non-negative integer of that magnitude renders; a floating-point number
  through the \<open>%g\<close> conversion; a boolean as \<open>True\<close> or \<open>False\<close>. None of these
  definitions refers to an inserter of the code.\<close>

definition spec_decimal :: "int \<Rightarrow> string" where
  "spec_decimal i = (if i < 0 then CHR ''-'' # decimal (nat (- i)) else decimal (nat i))"

definition spec_format :: "('d \<Rightarrow> string) \<Rightarrow> 'd elem_value \<Rightarrow> string" where
  "spec_format g v =
     (case v of
        VString x \<Rightarrow> x
      | VCStr x \<Rightarrow> (case x of None \<Rightarrow> [] | Some cs \<Rightarrow> cs)
      | VInt x \<Rightarrow> spec_decimal (sint x)
      | VUInt x \<Rightarrow> spec_decimal (uint x)
      | VDouble x \<Rightarrow> g x
      | VBool x \<Rightarrow> (if x then ''True'' else ''False''))"

definition spec_emit_text :: "string \<Rightarrow> Output \<Rightarrow> Output io" where
  "spec_emit_text txt s = (txt, Inr s)"

definition spec_writeElement :: "('d \<Rightarrow> string) \<Rightarrow> string option \<Rightarrow> 'd elem_value \<Rightarrow> Output \<Rightarrow> Output io" where
  "spec_writeElement g name v s =
     then_do (BeginElement name terse s) (\<lambda>s.
     then_do (spec_emit_text (spec_format g v) s) (\<lambda>s.
     EndElement terse s))"

section \<open>Closed forms of the operations\<close>

lemma then_do_ret [simp]: "then_do (ret a) f = f a"
  by (simp add: then_do_def ret_def split: prod.splits)

lemma then_do_abort [simp]: "then_do (abort e) f = abort e"
  by (simp add: then_do_def abort_def)

lemma then_do_Inr [simp]: "then_do (w, Inr a) f = (w @ fst (f a), snd (f a))"
  by (simp add: then_do_def split: prod.splits)

lemma then_do_Inl [simp]: "then_do (w, Inl e) f = (w, Inl e)"
  by (simp add: then_do_def)

lemma shl_cstr_Some [simp]: "shl_cstr (Some cs) s = (cs, Inr s)"
  by (simp add: shl_cstr_def writeString_def write_str_def strlen_c_def)

lemma shl_string_eq [simp]: "shl_string cs s = (cs, Inr s)"
  by (simp add: shl_string_def write_str_def)

lemma shl_int_eq [simp]: "shl_int v s = (sprintf_d (sint v), Inr s)"
  by (simp add: shl_int_def writeString_def write_str_def strlen_c_def)

lemma shl_uint_eq [simp]: "shl_uint v s = (sprintf_d (sint v), Inr s)"
  by (simp add: shl_uint_def writeString_def write_str_def strlen_c_def)

lemma shl_double_eq [simp]: "shl_double g v s = (g v, Inr s)"
  by (simp add: shl_double_def writeString_def write_str_def strlen_c_def)

lemma shl_bool_eq [simp]: "shl_bool v s = (if v then ''True'' else ''False'', Inr s)"
  by (simp add: shl_bool_def writeString_def write_str_def strlen_c_def)

lemma Indent_loop_eq: "Indent_loop i s = (replicate (nat (mLevel s - i)) (CHR 0x09), Inr s)"
proof (induction i s rule: Indent_loop.induct)
  case (1 i s)
  show ?case
  proof (cases "i < mLevel s")
    case True
    have "nat (mLevel s - i) = Suc (nat (mLevel s - (i + 1)))"
      using True by simp
    with True "1.IH" [of "[CHR 0x09]" "Inr s" s] show ?thesis
      by (subst Indent_loop.simps) (simp add: tab_def)
  next
    case False
    then show ?thesis
      by (subst Indent_loop.simps) (simp add: ret_def)
  qed
qed

lemma Indent_eq: "Indent s = (replicate (nat (mLevel s)) (CHR 0x09), Inr s)"
  by (simp add: Indent_def Indent_loop_eq)

lemma BeginElement_Some:
  "BeginElement (Some n) mode s =
     (if mAttributes s then ([], Inl AssertionFailed)
      else if mLevel s = INT_MAX then (replicate (nat (mLevel s)) (CHR 0x09), Inl SignedOverflow)
      else (replicate (nat (mLevel s)) (CHR 0x09) @ ''<'' @ n @ ''>'' @ (if mode \<noteq> terse then nl else []),
            Inr (s\<lparr>mLevel := mLevel s + 1, mElements := mElements s @ [n]\<rparr>)))"
  by (simp add: BeginElement_def Indent_eq incr_mLevel_def abort_def ret_def)

lemma BeginElement_None: "BeginElement None mode s = ([], Inl AssertionFailed)"
  by (simp add: BeginElement_def abort_def)

lemma BeginElementAttrs_Some:
  "BeginElementAttrs (Some n) s =
     (if mAttributes s then ([], Inl AssertionFailed)
      else if mLevel s = INT_MAX then (replicate (nat (mLevel s)) (CHR 0x09), Inl SignedOverflow)
      else (replicate (nat (mLevel s)) (CHR 0x09) @ ''<'' @ n,
            Inr (s\<lparr>mLevel := mLevel s + 1, mAttributes := True, mElements := mElements s @ [n]\<rparr>)))"
  by (simp add: BeginElementAttrs_def Indent_eq incr_mLevel_def abort_def ret_def)

lemma BeginElementAttrs_None: "BeginElementAttrs None s = ([], Inl AssertionFailed)"
  by (simp add: BeginElementAttrs_def abort_def)

lemma EndAttrs_eq:
  "EndAttrs mode s =
     (if \<not> mAttributes s then ([], Inl AssertionFailed)
      else (''>'' @ (if mode \<noteq> terse then nl else []), Inr (s\<lparr>mAttributes := False\<rparr>)))"
  by (simp add: EndAttrs_def abort_def ret_def)

lemma EndElement_eq:
  "EndElement mode s =
     (if mElements s = [] \<or> mAttributes s \<or> mLevel s \<le> 0 then ([], Inl AssertionFailed)
      else ((if mode \<noteq> terse then replicate (nat (mLevel s - 1)) (CHR 0x09) else []) @
              ''</'' @ last (mElements s) @ ''>'' @ nl,
            Inr (s\<lparr>mLevel := mLevel s - 1, mElements := butlast (mElements s)\<rparr>)))"
  by (simp add: EndElement_def Indent_eq abort_def ret_def Let_def)

lemma EndDocument_eq:
  "EndDocument s =
     (if mAttributes s \<or> mElements s \<noteq> [] then ([], Inl AssertionFailed) else ([], Inr s))"
  by (simp add: EndDocument_def abort_def ret_def)

lemma BeginDocument_eq:
  "BeginDocument version encoding standalone s =
     (case (version, encoding) of
        (Some v, Some e) \<Rightarrow>
          (''<?xml version='' @ quot @ v @ quot @ '' encoding='' @ quot @ e @ quot @
             '' standalone='' @ quot @ (if standalone then ''yes'' else ''no'') @ quot @ ''?>'' @ nl,
           Inr s)
      | _ \<Rightarrow> ([], Inl AssertionFailed))"
  by (simp add: BeginDocument_def abort_def split: option.splits)

lemma shl_cstr_None [simp]: "shl_cstr None s = ([], Inl AssertionFailed)"
  by (simp add: shl_cstr_def abort_def)

lemma shl_cstr_eq:
  "shl_cstr x s = (case x of None \<Rightarrow> ([], Inl AssertionFailed) | Some cs \<Rightarrow> (cs, Inr s))"
  by (cases x) simp_all

lemma WriteElement_None: "WriteElement g None v s = ([], Inl AssertionFailed)"
  by (cases v)
     (simp_all add: WriteElement_def WriteElement_string_def WriteElement_cstr_def
        WriteElement_int_def WriteElement_uint_def WriteElement_double_def
        WriteElement_bool_def abort_def)

lemma WriteElement_null_value: "WriteElement g name (VCStr None) s = ([], Inl AssertionFailed)"
  by (simp add: WriteElement_def WriteElement_cstr_def abort_def)

lemma WriteElement_eq:
  "v \<noteq> VCStr None \<Longrightarrow>
   WriteElement g (Some n) v s =
     (if mAttributes s then ([], Inl AssertionFailed)
      else if mLevel s = INT_MAX then (replicate (nat (mLevel s)) (CHR 0x09), Inl SignedOverflow)
      else if mLevel s < 0 then
        (''<'' @ n @ ''>'' @
           (case v of VString x \<Rightarrow> x | VCStr x \<Rightarrow> the x | VInt x \<Rightarrow> sprintf_d (sint x)
              | VUInt x \<Rightarrow> sprintf_d (sint x) | VDouble x \<Rightarrow> g x
              | VBool x \<Rightarrow> (if x then ''True'' else ''False'')),
         Inl AssertionFailed)
      else
        (replicate (nat (mLevel s)) (CHR 0x09) @ ''<'' @ n @ ''>'' @
           (case v of VString x \<Rightarrow> x | VCStr x \<Rightarrow> the x | VInt x \<Rightarrow> sprintf_d (sint x)
              | VUInt x \<Rightarrow> sprintf_d (sint x) | VDouble x \<Rightarrow> g x
              | VBool x \<Rightarrow> (if x then ''True'' else ''False'')) @
           ''</'' @ n @ ''>'' @ nl,
         Inr s))"
  by (cases v)
     (auto simp: WriteElement_def WriteElement_string_def WriteElement_cstr_def
        WriteElement_int_def WriteElement_uint_def WriteElement_double_def
        WriteElement_bool_def BeginElement_Some EndElement_eq)

lemma WriteElement_state:
  assumes "snd (WriteElement g name v s) = Inr s'"
  shows "s' = s"
proof (cases "name = None \<or> v = VCStr None")
  case True
  then have "WriteElement g name v s = ([], Inl AssertionFailed)"
    by (auto simp: WriteElement_None WriteElement_null_value)
  with assms show ?thesis by simp
next
  case False
  then obtain n where "name = Some n" and "v \<noteq> VCStr None" by auto
  with assms show ?thesis
    by (simp add: WriteElement_eq split: if_splits)
qed

lemma spec_writeElement_None: "spec_writeElement g None v s = ([], Inl AssertionFailed)"
  by (simp add: spec_writeElement_def BeginElement_None)

lemma spec_writeElement_eq:
  "spec_writeElement g (Some n) v s =
     (if mAttributes s then ([], Inl AssertionFailed)
      else if mLevel s = INT_MAX then (replicate (nat (mLevel s)) (CHR 0x09), Inl SignedOverflow)
      else if mLevel s < 0 then (''<'' @ n @ ''>'' @ spec_format g v, Inl AssertionFailed)
      else
        (replicate (nat (mLevel s)) (CHR 0x09) @ ''<'' @ n @ ''>'' @ spec_format g v @
           ''</'' @ n @ ''>'' @ nl,
         Inr s))"
  by (simp add: spec_writeElement_def spec_emit_text_def BeginElement_Some EndElement_eq)

lemma spec_decimal_eq: "spec_decimal i = sprintf_d i"
  by (simp add: spec_decimal_def sprintf_d_def)

lemma WriteAttr_eq:
  "v \<noteq> ACStr None \<Longrightarrow>
   WriteAttr g (Some n) v s =
     (if \<not> mAttributes s then ([], Inl AssertionFailed)
      else ('' '' @ n @ ''='' @ quot @
              (case v of AString x \<Rightarrow> x | ACStr x \<Rightarrow> the x | AInt x \<Rightarrow> sprintf_d (sint x)
                 | ADouble x \<Rightarrow> g x | ABool x \<Rightarrow> (if x then ''True'' else ''False'')) @ quot,
            Inr s))"
  by (cases v)
     (auto simp: WriteAttr_def WriteAttr_string_def WriteAttr_cstr_def WriteAttr_int_def
        WriteAttr_double_def WriteAttr_bool_def abort_def)

lemma WriteAttr_closed: "\<not> mAttributes s \<Longrightarrow> WriteAttr g name v s = ([], Inl AssertionFailed)"
  by (cases v)
     (simp_all add: WriteAttr_def WriteAttr_string_def WriteAttr_cstr_def WriteAttr_int_def
        WriteAttr_double_def WriteAttr_bool_def abort_def)


section \<open>Effects of the calls on the state\<close>

lemma then_do_success:
  assumes "snd (then_do m f) = Inr b"
  obtains w a where "m = (w, Inr a)" and "snd (f a) = Inr b"
  using assms by (cases m; cases "snd m") (auto simp: then_do_def split: prod.splits)

lemma BeginElement_effect:
  assumes "snd (BeginElement name mode s) = Inr s'"
  shows "\<exists>n. name = Some n \<and> s' = s\<lparr>mLevel := mLevel s + 1, mElements := mElements s @ [n]\<rparr>"
  using assms by (cases name) (auto simp: BeginElement_Some BeginElement_None split: if_splits)

lemma BeginElementAttrs_effect:
  assumes "snd (BeginElementAttrs name s) = Inr s'"
  shows "\<exists>n. name = Some n \<and>
           s' = s\<lparr>mLevel := mLevel s + 1, mAttributes := True, mElements := mElements s @ [n]\<rparr>"
  using assms
  by (cases name) (auto simp: BeginElementAttrs_Some BeginElementAttrs_None split: if_splits)

lemma EndElement_effect:
  assumes "snd (EndElement mode s) = Inr s'"
  shows "mElements s \<noteq> [] \<and> 0 < mLevel s \<and>
         s' = s\<lparr>mLevel := mLevel s - 1, mElements := butlast (mElements s)\<rparr>"
  using assms by (auto simp: EndElement_eq split: if_splits)

lemma EndAttrs_effect:
  assumes "snd (EndAttrs mode s) = Inr s'"
  shows "s' = s\<lparr>mAttributes := False\<rparr>"
  using assms by (auto simp: EndAttrs_eq split: if_splits)

lemma EndDocument_effect:
  assumes "snd (EndDocument s) = Inr s'"
  shows "s' = s"
  using assms by (auto simp: EndDocument_eq split: if_splits)

lemma BeginDocument_effect:
  assumes "snd (BeginDocument version encoding standalone s) = Inr s'"
  shows "s' = s"
  using assms by (auto simp: BeginDocument_eq split: option.splits)

lemma WriteAttr_effect:
  assumes "snd (WriteAttr g name v s) = Inr s'"
  shows "s' = s"
  using assms
  by (cases v; cases name)
     (auto simp: WriteAttr_def WriteAttr_string_def WriteAttr_cstr_def WriteAttr_int_def
        WriteAttr_double_def WriteAttr_bool_def abort_def shl_cstr_eq
        split: if_splits option.splits)

lemma step_effect:
  assumes "snd (step g c s) = Inr s'"
  shows "case c of
           CallBeginElement name mode \<Rightarrow>
             mLevel s' = mLevel s + 1 \<and> (\<exists>n. name = Some n \<and> mElements s' = mElements s @ [n])
         | CallBeginElementAttrs name \<Rightarrow>
             mLevel s' = mLevel s + 1 \<and> (\<exists>n. name = Some n \<and> mElements s' = mElements s @ [n])
         | CallEndElement mode \<Rightarrow>
             mLevel s' = mLevel s - 1 \<and> mElements s' @ [last (mElements s)] = mElements s
         | _ \<Rightarrow> mLevel s' = mLevel s \<and> mElements s' = mElements s"
proof (cases c)
  case (CallBeginDocument version encoding standalone)
  with assms show ?thesis by (auto dest: BeginDocument_effect)
next
  case CallEndDocument
  with assms show ?thesis by (auto dest: EndDocument_effect)
next
  case (CallBeginElement name mode)
  with assms show ?thesis by (auto dest: BeginElement_effect)
next
  case (CallBeginElementAttrs name)
  with assms show ?thesis by (auto dest: BeginElementAttrs_effect)
next
  case (CallEndAttrs mode)
  with assms show ?thesis by (auto dest: EndAttrs_effect)
next
  case (CallEndElement mode)
  with assms show ?thesis by (auto dest!: EndElement_effect)
next
  case (CallWriteElement name v)
  with assms show ?thesis by (auto dest: WriteElement_state)
next
  case (CallWriteAttr name v)
  with assms show ?thesis by (auto dest: WriteAttr_effect)
qed

lemma step_invariant:
  assumes "snd (step g c s) = Inr s'" and "int (length (mElements s)) = mLevel s"
  shows "int (length (mElements s')) = mLevel s'"
proof (cases c)
  case (CallEndElement mode)
  with assms(1) have "mElements s \<noteq> []"
    and "s' = s\<lparr>mLevel := mLevel s - 1, mElements := butlast (mElements s)\<rparr>"
    by (auto dest: EndElement_effect)
  with assms(2) show ?thesis
    by (cases "mElements s" rule: rev_cases) auto
qed (use assms step_effect [OF assms(1)] in auto)

lemma run_append: "run g (xs @ ys) s = then_do (run g xs s) (run g ys)"
proof (induction xs arbitrary: s)
  case Nil
  show ?case by simp
next
  case (Cons c xs)
  show ?case
    by (cases "step g c s"; cases "snd (step g c s)")
       (auto simp: Cons.IH then_do_def split: prod.splits sum.splits)
qed

lemma run_invariant:
  assumes "snd (run g cs s) = Inr s'" and "int (length (mElements s)) = mLevel s"
  shows "int (length (mElements s')) = mLevel s'"
  using assms
proof (induction cs arbitrary: s)
  case Nil
  then show ?case by (simp add: ret_def)
next
  case (Cons c cs)
  from Cons.prems(1) obtain w a where a: "step g c s = (w, Inr a)" and r: "snd (run g cs a) = Inr s'"
    by (auto elim: then_do_success)
  from a have "snd (step g c s) = Inr a" by simp
  then have "int (length (mElements a)) = mLevel a"
    using Cons.prems(2) by (rule step_invariant)
  with r show ?case by (rule Cons.IH)
qed

lemma run_prefix:
  assumes "snd (run g cs s) = Inr s'"
  shows "\<exists>t. snd (run g (take k cs) s) = Inr t"
proof -
  have "run g cs s = then_do (run g (take k cs) s) (run g (drop k cs))"
    by (metis append_take_drop_id run_append)
  with assms show ?thesis
    by (auto elim: then_do_success)
qed

lemma run_WriteAttr_frame:
  assumes "\<forall>c \<in> set cs. \<exists>n v. c = CallWriteAttr (Some n) v \<and> v \<noteq> ACStr None"
    and "mAttributes s"
  shows "snd (run g cs s) = Inr s"
  using assms
proof (induction cs)
  case Nil
  show ?case by (simp add: ret_def)
next
  case (Cons c cs)
  then obtain n v where "c = CallWriteAttr (Some n) v" and "v \<noteq> ACStr None"
    by auto
  with Cons show ?case
    by (simp add: WriteAttr_eq)
qed

section \<open>Reading an unsigned value as a signed one\<close>

lemma sint_small:
  fixes v :: "32 word"
  assumes "unat v < 2 ^ 31"
  shows "sint v = int (unat v)"
proof -
  have "int (unat v) < int (2 ^ 31)" using assms by (simp only: of_nat_less_iff)
  then have "uint v < 2 ^ 31" by simp
  moreover have "- (2 ^ 31) \<le> uint v" by (rule order_trans [of _ 0]) simp_all
  ultimately have "signed_take_bit 31 (uint v) = uint v"
    by (intro signed_take_bit_int_eq_self) simp_all
  then show ?thesis by (simp add: sint_uint)
qed

lemma shl_uint_small:
  assumes "unat v < 2 ^ 31"
  shows "shl_uint v s = (decimal (unat v), Inr s)"
  using sint_small [OF assms] by (simp add: sprintf_d_def)

section \<open>Scenarios\<close>

text \<open>
  C2. From the initial state, the calls \<open>BeginElement("root", normal)\<close>,
  \<open>WriteElement("child", 5)\<close>, \<open>EndElement(normal)\<close>, \<open>EndDocument()\<close> all return, no
  assertion fails, and the stream receives exactly \<open><root>\<close>, newline, tab,
  \<open><child>5</child>\<close>, newline, \<open></root>\<close>, newline. The writer is back in its initial
  state.
\<close>

theorem scenario_root_child:
  "run g [CallBeginElement (Some ''root'') normal,
          CallWriteElement (Some ''child'') (VInt 5),
          CallEndElement normal,
          CallEndDocument] Output_new =
     (''<root>'' @ [CHR 0x0A, CHR 0x09] @ ''<child>5</child>'' @ [CHR 0x0A] @ ''</root>'' @ [CHR 0x0A],
      Inr Output_new)"
  by (simp add: Output_new_def BeginElement_Some WriteElement_def WriteElement_int_def
      EndElement_eq EndDocument_eq INT_MAX_def nl_def sprintf_d_def decimal.simps
      digit_char_def ret_def)

text \<open>
  C4. From the initial state, the calls \<open>BeginElementAttrs("item")\<close>,
  \<open>WriteAttr("id", 7)\<close>, \<open>EndAttrs(terse)\<close>, \<open>EndElement(terse)\<close> all return, no assertion
  fails, and the stream receives exactly \<open><item id="7"></item>\<close> and a newline.
\<close>

theorem scenario_item_attribute:
  "run g [CallBeginElementAttrs (Some ''item''),
          CallWriteAttr (Some ''id'') (AInt 7),
          CallEndAttrs terse,
          CallEndElement terse] Output_new =
     (''<item id='' @ [CHR 0x22] @ ''7'' @ [CHR 0x22] @ ''></item>'' @ [CHR 0x0A], Inr Output_new)"
  by (simp add: Output_new_def BeginElementAttrs_Some WriteAttr_def WriteAttr_int_def
      EndAttrs_eq EndElement_eq INT_MAX_def nl_def quot_def sprintf_d_def decimal.simps
      digit_char_def ret_def)

section \<open>Closing the document\<close>

text \<open>
  C3. \<open>EndDocument\<close> fails an assertion if and only if an element is still open or the
  attribute window is open. Otherwise it returns, writes nothing to the stream and leaves
  the state as it was.
\<close>

theorem EndDocument_violation_iff:
  "(violates (EndDocument s) \<longleftrightarrow> mElements s \<noteq> [] \<or> mAttributes s) \<and>
   (mElements s = [] \<and> \<not> mAttributes s \<longrightarrow> EndDocument s = ([], Inr s))"
  by (auto simp: EndDocument_eq violates_def outcome_def)

theorem EndDocument_violation_iff_witness:
  "mElements Output_new = [] \<and> \<not> mAttributes Output_new \<and>
   EndDocument Output_new = ([], Inr Output_new) \<and> \<not> violates (EndDocument Output_new) \<and>
   violates (EndDocument (Output_new\<lparr>mAttributes := True\<rparr>)) \<and>
   violates (EndDocument (Output_new\<lparr>mElements := [''a'']\<rparr>))"
  using EndDocument_violation_iff [of Output_new]
    EndDocument_violation_iff [of "Output_new\<lparr>mAttributes := True\<rparr>"]
    EndDocument_violation_iff [of "Output_new\<lparr>mElements := [''a'']\<rparr>"]
  by (simp add: Output_new_def violates_def outcome_def)

section \<open>Formatting of values\<close>

text \<open>
  C9. The integer -42 is written as the three characters \<open>-42\<close>, the boolean true as
  \<open>True\<close> and the boolean false as \<open>False\<close>: by the inserters themselves, as the text
  of an element and as the value of an attribute.
\<close>

theorem formatting_literals:
  "shl_int (- 42) s = (''-42'', Inr s) \<and>
   shl_bool True s = (''True'', Inr s) \<and>
   shl_bool False s = (''False'', Inr s) \<and>
   WriteElement g (Some ''e'') (VInt (- 42)) Output_new = (''<e>-42</e>'' @ [CHR 0x0A], Inr Output_new) \<and>
   WriteElement g (Some ''e'') (VBool True) Output_new = (''<e>True</e>'' @ [CHR 0x0A], Inr Output_new) \<and>
   WriteElement g (Some ''e'') (VBool False) Output_new = (''<e>False</e>'' @ [CHR 0x0A], Inr Output_new) \<and>
   WriteAttr g (Some ''a'') (AInt (- 42)) (s\<lparr>mAttributes := True\<rparr>) =
     ('' a='' @ [CHR 0x22] @ ''-42'' @ [CHR 0x22], Inr (s\<lparr>mAttributes := True\<rparr>)) \<and>
   WriteAttr g (Some ''a'') (ABool True) (s\<lparr>mAttributes := True\<rparr>) =
     ('' a='' @ [CHR 0x22] @ ''True'' @ [CHR 0x22], Inr (s\<lparr>mAttributes := True\<rparr>)) \<and>
   WriteAttr g (Some ''a'') (ABool False) (s\<lparr>mAttributes := True\<rparr>) =
     ('' a='' @ [CHR 0x22] @ ''False'' @ [CHR 0x22], Inr (s\<lparr>mAttributes := True\<rparr>))"
  by (simp add: Output_new_def WriteElement_def WriteElement_int_def WriteElement_bool_def
      BeginElement_Some EndElement_eq WriteAttr_def WriteAttr_int_def WriteAttr_bool_def
      INT_MAX_def nl_def quot_def sprintf_d_def decimal.simps digit_char_def)


text \<open>
  C8 (the code departs from the claim). The inserter for \<open>unsigned int\<close> formats its
  argument with \<open>%d\<close>, so a value of \<open>2^31\<close> or more is written as a negative number:
  4294967295 is written as \<open>-1\<close>, as inserted text and as the text of an element, while
  its unsigned decimal representation is \<open>4294967295\<close>. Below \<open>2^31\<close> the two agree
  (lemma \<open>shl_uint_small\<close>).
\<close>

theorem unsigned_rendered_as_signed:
  "shl_uint 4294967295 s = (''-1'', Inr s) \<and>
   decimal (unat (4294967295 :: 32 word)) = ''4294967295'' \<and>
   WriteElement g (Some ''n'') (VUInt 4294967295) Output_new =
     (''<n>-1</n>'' @ [CHR 0x0A], Inr Output_new)"
  by (simp add: Output_new_def WriteElement_def WriteElement_uint_def
      BeginElement_Some EndElement_eq
      INT_MAX_def nl_def sprintf_d_def decimal.simps digit_char_def)

section \<open>Text elements\<close>

text \<open>
  C5 (the code departs from the claim at large unsigned values). For every name (null
  included), every state and every value that is a real value (a string given as
  \<open>const char *\<close> being a non-null pointer), \<open>WriteElement\<close> writes the same bytes and ends
  with the same outcome, hence in the same state, as the sequence of the spec, provided
  an unsigned value is below \<open>2^31\<close>. At the unsigned value 4294967295 the two
  differ: \<open>WriteElement\<close> writes \<open><n>-1</n>\<close> where the sequence of the spec writes
  \<open><n>4294967295</n>\<close>.
\<close>

theorem WriteElement_sequence_except_large_unsigned:
  "(v \<noteq> VCStr None \<and> (\<forall>x. v = VUInt x \<longrightarrow> unat x < 2 ^ 31) \<longrightarrow>
      WriteElement g name v s = spec_writeElement g name v s) \<and>
   WriteElement g (Some ''n'') (VUInt 4294967295) Output_new =
     (''<n>-1</n>'' @ [CHR 0x0A], Inr Output_new) \<and>
   spec_writeElement g (Some ''n'') (VUInt 4294967295) Output_new =
     (''<n>4294967295</n>'' @ [CHR 0x0A], Inr Output_new)"
proof (intro conjI impI)
  assume h: "v \<noteq> VCStr None \<and> (\<forall>x. v = VUInt x \<longrightarrow> unat x < 2 ^ 31)"
  have fmt: "(case v of VString x \<Rightarrow> x | VCStr x \<Rightarrow> the x | VInt x \<Rightarrow> sprintf_d (sint x)
      | VUInt x \<Rightarrow> sprintf_d (sint x) | VDouble x \<Rightarrow> g x
      | VBool x \<Rightarrow> (if x then ''True'' else ''False'')) = spec_format g v"
  proof (cases v)
    case (VUInt x)
    with h have "unat x < 2 ^ 31" by simp
    then have "sint x = uint x" by (simp add: sint_small)
    with VUInt show ?thesis by (simp add: spec_format_def spec_decimal_eq)
  next
    case (VCStr x)
    with h show ?thesis by (cases x) (simp_all add: spec_format_def)
  qed (simp_all add: spec_format_def spec_decimal_eq)
  show "WriteElement g name v s = spec_writeElement g name v s"
  proof (cases name)
    case None
    then show ?thesis by (simp add: WriteElement_None spec_writeElement_None)
  next
    case (Some n)
    with h fmt show ?thesis by (simp add: WriteElement_eq spec_writeElement_eq)
  qed
next
  show "WriteElement g (Some ''n'') (VUInt 4294967295) Output_new =
     (''<n>-1</n>'' @ [CHR 0x0A], Inr Output_new)"
    by (simp add: Output_new_def WriteElement_eq INT_MAX_def nl_def sprintf_d_def
        decimal.simps digit_char_def)
next
  show "spec_writeElement g (Some ''n'') (VUInt 4294967295) Output_new =
     (''<n>4294967295</n>'' @ [CHR 0x0A], Inr Output_new)"
    by (simp add: Output_new_def spec_writeElement_eq INT_MAX_def nl_def spec_format_def
        spec_decimal_def decimal.simps digit_char_def)
qed

theorem WriteElement_sequence_except_large_unsigned_witness:
  "WriteElement (\<lambda>d :: bool. if d then ''1.5'' else ''2e+10'') (Some ''child'') (VString ''text'')
      \<lparr>mLevel = 1, mAttributes = False, mElements = [''root'']\<rparr> =
     ([CHR 0x09] @ ''<child>text</child>'' @ [CHR 0x0A],
      Inr \<lparr>mLevel = 1, mAttributes = False, mElements = [''root'']\<rparr>) \<and>
   WriteElement (\<lambda>d :: bool. if d then ''1.5'' else ''2e+10'') (Some ''child'') (VUInt 2147483647)
      \<lparr>mLevel = 1, mAttributes = False, mElements = [''root'']\<rparr> =
     ([CHR 0x09] @ ''<child>2147483647</child>'' @ [CHR 0x0A],
      Inr \<lparr>mLevel = 1, mAttributes = False, mElements = [''root'']\<rparr>) \<and>
   WriteElement (\<lambda>d :: bool. if d then ''1.5'' else ''2e+10'') (Some ''child'') (VDouble True)
      \<lparr>mLevel = 1, mAttributes = False, mElements = [''root'']\<rparr> =
     ([CHR 0x09] @ ''<child>1.5</child>'' @ [CHR 0x0A],
      Inr \<lparr>mLevel = 1, mAttributes = False, mElements = [''root'']\<rparr>)"
proof -
  let ?g = "\<lambda>d :: bool. if d then ''1.5'' else ''2e+10''"
  let ?s = "\<lparr>mLevel = 1, mAttributes = False, mElements = [''root'']\<rparr>"
  have u: "unat (2147483647 :: 32 word) < 2 ^ 31" by simp
  have "WriteElement ?g (Some ''child'') (VString ''text'') ?s =
      spec_writeElement ?g (Some ''child'') (VString ''text'') ?s"
    using WriteElement_sequence_except_large_unsigned
      [where v = "VString ''text''" and g = ?g and name = "Some ''child''" and s = ?s]
    by simp
  moreover have "WriteElement ?g (Some ''child'') (VUInt 2147483647) ?s =
      spec_writeElement ?g (Some ''child'') (VUInt 2147483647) ?s"
    using WriteElement_sequence_except_large_unsigned
      [where v = "VUInt 2147483647" and g = ?g and name = "Some ''child''" and s = ?s] u
    by simp
  moreover have "WriteElement ?g (Some ''child'') (VDouble True) ?s =
      spec_writeElement ?g (Some ''child'') (VDouble True) ?s"
    using WriteElement_sequence_except_large_unsigned
      [where v = "VDouble True" and g = ?g and name = "Some ''child''" and s = ?s]
    by simp
  ultimately show ?thesis
    by (simp add: spec_writeElement_eq INT_MAX_def nl_def spec_format_def spec_decimal_def
        decimal.simps digit_char_def)
qed

section \<open>Indentation and the terse mode\<close>

text \<open>
  C6. An element opened at depth \<open>d\<close>, by \<open>BeginElement\<close> in either mode or by
  \<open>BeginElementAttrs\<close>, has exactly \<open>d\<close> tabs written immediately before its tag. The mode
  \<open>terse\<close> removes the newline after the open tag and nothing else: for \<open>BeginElement\<close>
  that newline follows the \<open>>\<close> it writes; for an element opened by
  \<open>BeginElementAttrs\<close> the \<open>>\<close> and the newline are written by \<open>EndAttrs\<close>, whose mode
  decides in the same way, in any state with the attribute window open and in
  particular right after the open. The close tag of the element, written when the level
  is \<open>d + 1\<close>, is preceded by \<open>d\<close> tabs in normal mode and by nothing in terse mode, and
  is followed by a newline in both.
\<close>

theorem indentation_and_terse:
  assumes "mLevel s = int d" and "mLevel s < INT_MAX" and "\<not> mAttributes s"
  shows
    "BeginElement (Some n) mode s =
       (replicate d (CHR 0x09) @ ''<'' @ n @ ''>'' @ (if mode = terse then [] else [CHR 0x0A]),
        Inr (s\<lparr>mLevel := int d + 1, mElements := mElements s @ [n]\<rparr>)) \<and>
     BeginElementAttrs (Some n) s =
       (replicate d (CHR 0x09) @ ''<'' @ n,
        Inr (s\<lparr>mLevel := int d + 1, mAttributes := True, mElements := mElements s @ [n]\<rparr>)) \<and>
     (mAttributes a \<longrightarrow>
        EndAttrs mode a =
          (''>'' @ (if mode = terse then [] else [CHR 0x0A]), Inr (a\<lparr>mAttributes := False\<rparr>))) \<and>
     then_do (BeginElementAttrs (Some n) s) (EndAttrs mode) =
       (replicate d (CHR 0x09) @ ''<'' @ n @ ''>'' @ (if mode = terse then [] else [CHR 0x0A]),
        Inr (s\<lparr>mLevel := int d + 1, mAttributes := False, mElements := mElements s @ [n]\<rparr>)) \<and>
     (mLevel t = int d + 1 \<and> mElements t \<noteq> [] \<and> \<not> mAttributes t \<longrightarrow>
        EndElement mode t =
          ((if mode = terse then [] else replicate d (CHR 0x09)) @
             ''</'' @ last (mElements t) @ ''>'' @ [CHR 0x0A],
           Inr (t\<lparr>mLevel := int d, mElements := butlast (mElements t)\<rparr>)))"
  using assms
  by (simp add: BeginElement_Some BeginElementAttrs_Some EndAttrs_eq EndElement_eq nl_def)

theorem indentation_and_terse_witness:
  "BeginElement (Some ''b'') terse \<lparr>mLevel = 2, mAttributes = False, mElements = [''r'', ''a'']\<rparr> =
     ([CHR 0x09, CHR 0x09] @ ''<b>'',
      Inr \<lparr>mLevel = 3, mAttributes = False, mElements = [''r'', ''a'', ''b'']\<rparr>) \<and>
   BeginElement (Some ''b'') normal \<lparr>mLevel = 2, mAttributes = False, mElements = [''r'', ''a'']\<rparr> =
     ([CHR 0x09, CHR 0x09] @ ''<b>'' @ [CHR 0x0A],
      Inr \<lparr>mLevel = 3, mAttributes = False, mElements = [''r'', ''a'', ''b'']\<rparr>) \<and>
   BeginElementAttrs (Some ''b'') \<lparr>mLevel = 2, mAttributes = False, mElements = [''r'', ''a'']\<rparr> =
     ([CHR 0x09, CHR 0x09] @ ''<b'',
      Inr \<lparr>mLevel = 3, mAttributes = True, mElements = [''r'', ''a'', ''b'']\<rparr>) \<and>
   EndAttrs terse \<lparr>mLevel = 3, mAttributes = True, mElements = [''r'', ''a'', ''b'']\<rparr> =
     (''>'', Inr \<lparr>mLevel = 3, mAttributes = False, mElements = [''r'', ''a'', ''b'']\<rparr>) \<and>
   EndAttrs normal \<lparr>mLevel = 3, mAttributes = True, mElements = [''r'', ''a'', ''b'']\<rparr> =
     (''>'' @ [CHR 0x0A], Inr \<lparr>mLevel = 3, mAttributes = False, mElements = [''r'', ''a'', ''b'']\<rparr>) \<and>
   then_do (BeginElementAttrs (Some ''b'') \<lparr>mLevel = 2, mAttributes = False, mElements = [''r'', ''a'']\<rparr>)
       (EndAttrs terse) =
     ([CHR 0x09, CHR 0x09] @ ''<b>'',
      Inr \<lparr>mLevel = 3, mAttributes = False, mElements = [''r'', ''a'', ''b'']\<rparr>) \<and>
   then_do (BeginElementAttrs (Some ''b'') \<lparr>mLevel = 2, mAttributes = False, mElements = [''r'', ''a'']\<rparr>)
       (EndAttrs normal) =
     ([CHR 0x09, CHR 0x09] @ ''<b>'' @ [CHR 0x0A],
      Inr \<lparr>mLevel = 3, mAttributes = False, mElements = [''r'', ''a'', ''b'']\<rparr>) \<and>
   EndElement terse \<lparr>mLevel = 3, mAttributes = False, mElements = [''r'', ''a'', ''b'']\<rparr> =
     (''</b>'' @ [CHR 0x0A],
      Inr \<lparr>mLevel = 2, mAttributes = False, mElements = [''r'', ''a'']\<rparr>) \<and>
   EndElement normal \<lparr>mLevel = 3, mAttributes = False, mElements = [''r'', ''a'', ''b'']\<rparr> =
     ([CHR 0x09, CHR 0x09] @ ''</b>'' @ [CHR 0x0A],
      Inr \<lparr>mLevel = 2, mAttributes = False, mElements = [''r'', ''a'']\<rparr>)"
proof -
  let ?s = "\<lparr>mLevel = 2, mAttributes = False, mElements = [''r'', ''a'']\<rparr>"
  let ?a = "\<lparr>mLevel = 3, mAttributes = True, mElements = [''r'', ''a'', ''b'']\<rparr>"
  let ?t = "\<lparr>mLevel = 3, mAttributes = False, mElements = [''r'', ''a'', ''b'']\<rparr>"
  have h: "mLevel ?s = int 2" "mLevel ?s < INT_MAX" "\<not> mAttributes ?s"
    by (simp_all add: INT_MAX_def)
  have k: "mLevel ?t = int 2 + 1 \<and> mElements ?t \<noteq> [] \<and> \<not> mAttributes ?t"
    by simp
  have w: "mAttributes ?a"
    by simp
  from indentation_and_terse [OF h, where n = "''b''" and mode = terse and a = ?a and t = ?t]
    indentation_and_terse [OF h, where n = "''b''" and mode = normal and a = ?a and t = ?t] k w
  show ?thesis by (simp add: numeral_2_eq_2)
qed

section \<open>Attributes\<close>

text \<open>
  C7. While the attribute window is closed, \<open>WriteAttr\<close> fails an assertion before
  writing anything, whatever the name and the value. While it is open, \<open>WriteAttr\<close> with
  a name and a value (non-null pointers) raises nothing.
\<close>

theorem WriteAttr_needs_attribute_window:
  "(\<not> mAttributes s \<longrightarrow> WriteAttr g name v s = ([], Inl AssertionFailed)) \<and>
   (mAttributes s \<and> v \<noteq> ACStr None \<longrightarrow> (\<forall>e. outcome (WriteAttr g (Some n) v s) \<noteq> Inl e))"
  by (simp add: WriteAttr_closed WriteAttr_eq outcome_def)

theorem WriteAttr_needs_attribute_window_witness:
  "\<not> mAttributes Output_new \<and>
   WriteAttr (\<lambda>d :: unit. []) (Some ''id'') (AInt 7) Output_new = ([], Inl AssertionFailed) \<and>
   mAttributes (Output_new\<lparr>mAttributes := True\<rparr>) \<and> AInt 7 \<noteq> (ACStr None :: unit attr_value) \<and>
   (\<forall>e. outcome (WriteAttr (\<lambda>d :: unit. []) (Some ''id'') (AInt 7) (Output_new\<lparr>mAttributes := True\<rparr>)) \<noteq> Inl e)"
  using WriteAttr_needs_attribute_window [where s = Output_new and g = "\<lambda>d :: unit. []"
      and name = "Some ''id''" and v = "AInt 7" and n = "''id''"]
    WriteAttr_needs_attribute_window [where s = "Output_new\<lparr>mAttributes := True\<rparr>"
      and g = "\<lambda>d :: unit. []" and name = "Some ''id''" and v = "AInt 7" and n = "''id''"]
  by (simp add: Output_new_def)

text \<open>
  C10. While the attribute window is open, \<open>WriteAttr\<close> with a name and a value
  returns and leaves the state (level, open elements, attribute window) as it was; so
  does any sequence of such calls.
\<close>

theorem WriteAttr_frame:
  "(mAttributes s \<and> v \<noteq> ACStr None \<longrightarrow> outcome (WriteAttr g (Some n) v s) = Inr s) \<and>
   (mAttributes s \<and> (\<forall>c \<in> set cs. \<exists>n v. c = CallWriteAttr (Some n) v \<and> v \<noteq> ACStr None) \<longrightarrow>
      outcome (run g cs s) = Inr s)"
  by (simp add: WriteAttr_eq outcome_def run_WriteAttr_frame)

theorem WriteAttr_frame_witness:
  "mAttributes \<lparr>mLevel = 1, mAttributes = True, mElements = [''item'']\<rparr> \<and>
   ABool True \<noteq> (ACStr None :: unit attr_value) \<and>
   outcome (WriteAttr (\<lambda>d :: unit. []) (Some ''ok'') (ABool True)
     \<lparr>mLevel = 1, mAttributes = True, mElements = [''item'']\<rparr>) =
     Inr \<lparr>mLevel = 1, mAttributes = True, mElements = [''item'']\<rparr> \<and>
   outcome (run (\<lambda>d :: unit. []) [CallWriteAttr (Some ''id'') (AInt 7), CallWriteAttr (Some ''k'') (AString ''v'')]
     \<lparr>mLevel = 1, mAttributes = True, mElements = [''item'']\<rparr>) =
     Inr \<lparr>mLevel = 1, mAttributes = True, mElements = [''item'']\<rparr>"
  using WriteAttr_frame [where s = "\<lparr>mLevel = 1, mAttributes = True, mElements = [''item'']\<rparr>"
      and v = "ABool True" and g = "\<lambda>d :: unit. []" and n = "''ok''"
      and cs = "[CallWriteAttr (Some ''id'') (AInt 7), CallWriteAttr (Some ''k'') (AString ''v'')]"]
  by simp

section \<open>Nesting depth\<close>

text \<open>
  C1. Whenever a sequence of calls on a new writer returns from every call, the number
  of open element names equals the level after each of them. A call of \<open>BeginElement\<close>
  or \<open>BeginElementAttrs\<close> that returns has added 1 to the level and pushed its name; a
  call of \<open>EndElement\<close> that returns has subtracted 1 and popped the last name; any other
  call that returns has changed neither.
\<close>

theorem openElements_length_is_depth:
  "(outcome (run g cs Output_new) = Inr s \<longrightarrow>
      (\<forall>k \<le> length cs. \<exists>t. outcome (run g (take k cs) Output_new) = Inr t \<and>
         int (length (mElements t)) = mLevel t)) \<and>
   (outcome (step g c u) = Inr u' \<longrightarrow>
      (case c of
         CallBeginElement name mode \<Rightarrow>
           mLevel u' = mLevel u + 1 \<and> (\<exists>n. name = Some n \<and> mElements u' = mElements u @ [n])
       | CallBeginElementAttrs name \<Rightarrow>
           mLevel u' = mLevel u + 1 \<and> (\<exists>n. name = Some n \<and> mElements u' = mElements u @ [n])
       | CallEndElement mode \<Rightarrow>
           mLevel u' = mLevel u - 1 \<and> mElements u' @ [last (mElements u)] = mElements u
       | _ \<Rightarrow> mLevel u' = mLevel u \<and> mElements u' = mElements u))"
proof (intro conjI impI allI)
  fix k
  assume ok: "outcome (run g cs Output_new) = Inr s"
  then obtain t where t: "snd (run g (take k cs) Output_new) = Inr t"
    using run_prefix [of g cs Output_new s k] by (auto simp: outcome_def)
  moreover have "int (length (mElements Output_new)) = mLevel Output_new"
    by (simp add: Output_new_def)
  ultimately have "int (length (mElements t)) = mLevel t"
    by (rule run_invariant)
  with t show "\<exists>t. outcome (run g (take k cs) Output_new) = Inr t \<and>
      int (length (mElements t)) = mLevel t"
    by (auto simp: outcome_def)
next
  assume "outcome (step g c u) = Inr u'"
  then have "snd (step g c u) = Inr u'" by (simp add: outcome_def)
  then show "case c of
         CallBeginElement name mode \<Rightarrow>
           mLevel u' = mLevel u + 1 \<and> (\<exists>n. name = Some n \<and> mElements u' = mElements u @ [n])
       | CallBeginElementAttrs name \<Rightarrow>
           mLevel u' = mLevel u + 1 \<and> (\<exists>n. name = Some n \<and> mElements u' = mElements u @ [n])
       | CallEndElement mode \<Rightarrow>
           mLevel u' = mLevel u - 1 \<and> mElements u' @ [last (mElements u)] = mElements u
       | _ \<Rightarrow> mLevel u' = mLevel u \<and> mElements u' = mElements u"
    by (rule step_effect)
qed

theorem openElements_length_is_depth_witness:
  "outcome (run (\<lambda>d :: unit. [])
      [CallBeginElement (Some ''a'') normal, CallBeginElementAttrs (Some ''b'')] Output_new) =
     Inr \<lparr>mLevel = 2, mAttributes = True, mElements = [''a'', ''b'']\<rparr> \<and>
   (\<exists>t. outcome (run (\<lambda>d :: unit. [])
      (take 1 [CallBeginElement (Some ''a'') normal, CallBeginElementAttrs (Some ''b'')]) Output_new) = Inr t \<and>
      int (length (mElements t)) = mLevel t) \<and>
   (\<exists>t. outcome (run (\<lambda>d :: unit. [])
      (take 2 [CallBeginElement (Some ''a'') normal, CallBeginElementAttrs (Some ''b'')]) Output_new) = Inr t \<and>
      int (length (mElements t)) = mLevel t) \<and>
   outcome (step (\<lambda>d :: unit. []) (CallEndElement terse)
      \<lparr>mLevel = 2, mAttributes = False, mElements = [''a'', ''b'']\<rparr>) =
     Inr \<lparr>mLevel = 1, mAttributes = False, mElements = [''a'']\<rparr> \<and>
   mLevel \<lparr>mLevel = 1, mAttributes = False, mElements = [''a'']\<rparr> =
     mLevel \<lparr>mLevel = 2, mAttributes = False, mElements = [''a'', ''b'']\<rparr> - 1 \<and>
   mElements \<lparr>mLevel = 1, mAttributes = False, mElements = [''a'']\<rparr> @
       [last (mElements \<lparr>mLevel = 2, mAttributes = False, mElements = [''a'', ''b'']\<rparr>)] =
     mElements \<lparr>mLevel = 2, mAttributes = False, mElements = [''a'', ''b'']\<rparr>"
proof -
  let ?g = "\<lambda>d :: unit. []"
  let ?cs = "[CallBeginElement (Some ''a'') normal, CallBeginElementAttrs (Some ''b'')]"
  let ?s = "\<lparr>mLevel = 2, mAttributes = True, mElements = [''a'', ''b'']\<rparr>"
  let ?u = "\<lparr>mLevel = 2, mAttributes = False, mElements = [''a'', ''b'']\<rparr>"
  let ?u' = "\<lparr>mLevel = 1, mAttributes = False, mElements = [''a'']\<rparr>"
  have run_ok: "outcome (run ?g ?cs Output_new) = Inr ?s"
    by (simp add: outcome_def Output_new_def BeginElement_Some BeginElementAttrs_Some
        INT_MAX_def ret_def)
  have step_ok: "outcome (step ?g (CallEndElement terse) ?u) = Inr ?u'"
    by (simp add: outcome_def EndElement_eq)
  from openElements_length_is_depth [where g = ?g and cs = ?cs and s = ?s
      and c = "CallEndElement terse" and u = ?u and u' = ?u'] run_ok step_ok
  have all: "\<forall>k \<le> length ?cs. \<exists>t. outcome (run ?g (take k ?cs) Output_new) = Inr t \<and>
      int (length (mElements t)) = mLevel t"
    and eff: "mLevel ?u' = mLevel ?u - 1 \<and> mElements ?u' @ [last (mElements ?u)] = mElements ?u"
    by simp_all
  from all have "\<exists>t. outcome (run ?g (take 1 ?cs) Output_new) = Inr t \<and>
      int (length (mElements t)) = mLevel t"
    by (rule allE [where x = 1]) simp
  moreover from all have "\<exists>t. outcome (run ?g (take 2 ?cs) Output_new) = Inr t \<and>
      int (length (mElements t)) = mLevel t"
    by (rule allE [where x = 2]) simp
  ultimately show ?thesis using run_ok step_ok eff by blast
qed

end
